theory Spec2Isabelle
  imports Main
begin

section \<open>The benchmark registry of py\_bench and its three markers\<close>

text \<open>
  The module \<^verbatim>\<open>py_bench/bench_registry/decorators.py\<close> defines three decorators,
  \<^verbatim>\<open>benchmark\<close>, \<^verbatim>\<open>param\<close> and \<^verbatim>\<open>case_setup\<close>. Each of them mutates the
  class-level state of \<^verbatim>\<open>BenchRegistry\<close> and returns an object that takes the place
  of the decorated function. The mutation is modelled by explicit state passing: a
  marker takes the decorated object and the registry, and returns the object that the
  decorator returns together with the registry after the call.
\<close>

subsection \<open>Python objects\<close>

text \<open>
  A decorator receives whatever object stands below it; Python checks nothing. The
  objects of the model are function objects, which compare and hash by identity (the
  number is the identity), and the hashable values that the tests and the claims pass
  as arguments. Structural equality of HOL is Python's key equality on them.
  \<open>PyWrapper g\<close> is a function object that a marker has created around \<open>g\<close>: it forwards
  its calls to \<open>g\<close> and is an object different from \<open>g\<close>.
\<close>

datatype pyobj =
    PyFunction nat
  | PyWrapper pyobj
  | PyInt int
  | PyStr string
  | PyNone
  | PyTuple "pyobj list"

subsection \<open>The registry state\<close>

text \<open>
  \<^verbatim>\<open>BenchRegistry.bench_marked_functions\<close> is the list that \<^verbatim>\<open>benchmark\<close> appends to.
  Modelled from the spec: the class \<^verbatim>\<open>BenchRegistry\<close> itself (module
  \<^verbatim>\<open>bench_regisrty\<close>) is not among the sources, so the two mappings and their names
  follow section 3 of the specification: a mapping from function identity to the
  argument tuple, and a mapping from function identity to the setup routine.
\<close>

record BenchRegistry =
  bench_marked_functions :: "pyobj list"
  param_marked_functions :: "pyobj \<rightharpoonup> pyobj list"
  case_setup_functions :: "pyobj \<rightharpoonup> pyobj"

text \<open>
  Modelled from the spec: the state of \<^verbatim>\<open>BenchRegistry\<close> before any marker has run
  (created once, implicitly, with nothing registered).
\<close>

definition initial_registry :: BenchRegistry where
  "initial_registry =
     \<lparr>bench_marked_functions = [],
      param_marked_functions = Map.empty,
      case_setup_functions = Map.empty\<rparr>"

text \<open>
  Modelled from the spec: what the two absent methods of \<^verbatim>\<open>BenchRegistry\<close> return.
  Section 4.1 of the specification allows either the function itself or a lightweight
  wrapper around it, and section 9 leaves the choice open. The returned object is
  therefore a parameter of the model: \<open>param_result d f args\<close> is what
  \<^verbatim>\<open>save_param_marked_function(f, args)\<close> returns, and \<open>setup_result d f\<close> is what
  \<^verbatim>\<open>save_case_setup_function(f)\<close> returns.
\<close>

record return_discipline =
  param_result :: "pyobj \<Rightarrow> pyobj list \<Rightarrow> pyobj"
  setup_result :: "pyobj \<Rightarrow> pyobj"

text \<open>
  Modelled from the spec: the two disciplines that section 4.1 names. With
  \<open>returns_same\<close> both methods return the function they were given; with
  \<open>returns_wrapper\<close> both return a new wrapper around it.
\<close>

definition returns_same :: return_discipline where
  "returns_same = \<lparr>param_result = (\<lambda>f args. f), setup_result = (\<lambda>f. f)\<rparr>"


text \<open>
  Modelled from the spec: \<^verbatim>\<open>BenchRegistry.save_param_marked_function(f, args)\<close>, the
  specification's \<^verbatim>\<open>bind_parameters\<close>. It associates the tuple \<open>args\<close> with the
  identity of \<open>f\<close>, overwriting any earlier association, and returns the object that
  the discipline \<open>d\<close> gives.
\<close>

definition save_param_marked_function ::
  "return_discipline \<Rightarrow> pyobj \<Rightarrow> pyobj list \<Rightarrow> BenchRegistry \<Rightarrow> pyobj \<times> BenchRegistry" where
  "save_param_marked_function d f args r =
     (param_result d f args,
      r\<lparr>param_marked_functions := (param_marked_functions r)(f \<mapsto> args)\<rparr>)"

text \<open>
  Modelled from the spec: \<^verbatim>\<open>BenchRegistry.save_case_setup_function(f)\<close>, the
  specification's \<^verbatim>\<open>bind_setup\<close>. It associates \<open>f\<close> as the setup routine under its
  own identity as the key, replacing any earlier binding, and returns the object that
  the discipline \<open>d\<close> gives.
\<close>

definition save_case_setup_function ::
  "return_discipline \<Rightarrow> pyobj \<Rightarrow> BenchRegistry \<Rightarrow> pyobj \<times> BenchRegistry" where
  "save_case_setup_function d f r =
     (setup_result d f,
      r\<lparr>case_setup_functions := (case_setup_functions r)(f \<mapsto> f)\<rparr>)"

text \<open>
  Modelled from the spec: the three read accessors of section 4.1, which the external
  runner uses.
\<close>

definition benchmarks :: "BenchRegistry \<Rightarrow> pyobj list" where
  "benchmarks r = bench_marked_functions r"

definition parameters_for :: "BenchRegistry \<Rightarrow> pyobj \<Rightarrow> pyobj list option" where
  "parameters_for r f = param_marked_functions r f"

definition setup_for :: "BenchRegistry \<Rightarrow> pyobj \<Rightarrow> pyobj option" where
  "setup_for r f = case_setup_functions r f"

subsection \<open>The markers\<close>

text \<open>
  \<^verbatim>\<open>
  def benchmark(f):
      BenchRegistry.bench_marked_functions.append(f)
      return f
  \<close>
\<close>

definition benchmark :: "pyobj \<Rightarrow> BenchRegistry \<Rightarrow> pyobj \<times> BenchRegistry" where
  "benchmark f r =
     (f, r\<lparr>bench_marked_functions := bench_marked_functions r @ [f]\<rparr>)"

text \<open>
  \<^verbatim>\<open>
  def param(*args):
      def dumb_wrapper(f):
          return BenchRegistry.save_param_marked_function(f, args)
      return dumb_wrapper
  \<close>
  The closure \<^verbatim>\<open>dumb_wrapper\<close> captures \<open>args\<close>; \<open>param d args\<close> is that closure. The
  first argument \<open>d\<close> of \<open>param\<close> and of \<open>case_setup\<close> is not an argument of the Python
  function: it stands for the absent class, whose method the marker calls.
\<close>

definition dumb_wrapper ::
  "return_discipline \<Rightarrow> pyobj list \<Rightarrow> pyobj \<Rightarrow> BenchRegistry \<Rightarrow> pyobj \<times> BenchRegistry" where
  "dumb_wrapper d args f r = save_param_marked_function d f args r"

definition param ::
  "return_discipline \<Rightarrow> pyobj list \<Rightarrow> pyobj \<Rightarrow> BenchRegistry \<Rightarrow> pyobj \<times> BenchRegistry" where
  "param d args = dumb_wrapper d args"

text \<open>
  \<^verbatim>\<open>
  def case_setup(f):
      return BenchRegistry.save_case_setup_function(f)
  \<close>
\<close>

definition case_setup ::
  "return_discipline \<Rightarrow> pyobj \<Rightarrow> BenchRegistry \<Rightarrow> pyobj \<times> BenchRegistry" where
  "case_setup d f r = save_case_setup_function d f r"

subsection \<open>Programs that apply markers\<close>

text \<open>
  A module that uses the markers is, for the registry, a sequence of marker
  applications. \<open>apply_marker\<close> dispatches one application. \<open>decorate\<close> stacks markers
  on one definition: the list is in application order (the decorator written closest
  to the \<^verbatim>\<open>def\<close> first), and each marker receives what the previous one returned.
  \<open>run\<close> executes applications to separately named objects, one after the other.
\<close>

datatype marker = Benchmark | Param "pyobj list" | CaseSetup

fun apply_marker ::
  "return_discipline \<Rightarrow> marker \<Rightarrow> pyobj \<Rightarrow> BenchRegistry \<Rightarrow> pyobj \<times> BenchRegistry" where
  "apply_marker d Benchmark f r = benchmark f r"
| "apply_marker d (Param args) f r = param d args f r"
| "apply_marker d CaseSetup f r = case_setup d f r"

fun decorate ::
  "return_discipline \<Rightarrow> marker list \<Rightarrow> pyobj \<Rightarrow> BenchRegistry \<Rightarrow> pyobj \<times> BenchRegistry" where
  "decorate d [] f r = (f, r)"
| "decorate d (m # ms) f r =
     (case apply_marker d m f r of (f', r') \<Rightarrow> decorate d ms f' r')"

fun run :: "return_discipline \<Rightarrow> (marker \<times> pyobj) list \<Rightarrow> BenchRegistry \<Rightarrow> BenchRegistry" where
  "run d [] r = r"
| "run d ((m, f) # ops) r = run d ops (snd (apply_marker d m f r))"

section \<open>Properties\<close>

subsection \<open>Shared facts about one marker application\<close>

lemma benchmark_fields:
  "bench_marked_functions (snd (benchmark f r)) = bench_marked_functions r @ [f]"
  "param_marked_functions (snd (benchmark f r)) = param_marked_functions r"
  "case_setup_functions (snd (benchmark f r)) = case_setup_functions r"
  by (simp_all add: benchmark_def)

lemma param_fields:
  "bench_marked_functions (snd (param d args f r)) = bench_marked_functions r"
  "param_marked_functions (snd (param d args f r)) = (param_marked_functions r)(f \<mapsto> args)"
  "case_setup_functions (snd (param d args f r)) = case_setup_functions r"
  by (simp_all add: param_def dumb_wrapper_def save_param_marked_function_def)

lemma case_setup_fields:
  "bench_marked_functions (snd (case_setup d f r)) = bench_marked_functions r"
  "param_marked_functions (snd (case_setup d f r)) = param_marked_functions r"
  "case_setup_functions (snd (case_setup d f r)) = (case_setup_functions r)(f \<mapsto> f)"
  by (simp_all add: case_setup_def save_case_setup_function_def)

subsection \<open>Shared facts about sequences of marker applications\<close>

lemma run_bench_marked_functions:
  "bench_marked_functions (run d ops r) =
     bench_marked_functions r @ map snd (filter (\<lambda>x. fst x = Benchmark) ops)"
proof (induction ops arbitrary: r)
  case Nil
  show ?case by simp
next
  case (Cons x ops)
  obtain m f where x: "x = (m, f)" by (cases x)
  show ?case
    by (cases m)
       (simp_all add: x Cons.IH benchmark_fields param_fields case_setup_fields)
qed

lemma run_case_setup_functions_untouched:
  "(CaseSetup, f) \<notin> set ops \<Longrightarrow>
     case_setup_functions (run d ops r) f = case_setup_functions r f"
proof (induction ops arbitrary: r)
  case Nil
  show ?case by simp
next
  case (Cons x ops)
  obtain m g where x: "x = (m, g)" by (cases x)
  from Cons.prems have rest: "(CaseSetup, f) \<notin> set ops" by simp
  from Cons.prems x have here: "m = CaseSetup \<Longrightarrow> g \<noteq> f" by auto
  show ?case
    using here
    by (cases m)
       (simp_all add: x Cons.IH [OF rest] benchmark_fields param_fields case_setup_fields)
qed

lemma run_param_marked_functions_untouched:
  "\<forall>args. (Param args, f) \<notin> set ops \<Longrightarrow>
     param_marked_functions (run d ops r) f = param_marked_functions r f"
proof (induction ops arbitrary: r)
  case Nil
  show ?case by simp
next
  case (Cons x ops)
  obtain m g where x: "x = (m, g)" by (cases x)
  from Cons.prems have rest: "\<forall>args. (Param args, f) \<notin> set ops" by simp
  from Cons.prems x have here: "\<And>args. m = Param args \<Longrightarrow> g \<noteq> f" by auto
  show ?case
    using here
    by (cases m)
       (simp_all add: x Cons.IH [OF rest] benchmark_fields param_fields case_setup_fields)
qed

subsection \<open>The benchmark marker\<close>

text \<open>
  Claim C1. Applying \<^verbatim>\<open>benchmark\<close> to the functions of a sequence \<open>fs\<close>, one after the
  other, extends the benchmark sequence by exactly \<open>fs\<close>, in the order of application
  and with nothing filtered out; starting from the registry in which nothing is
  registered, the benchmark sequence read afterwards is \<open>fs\<close> itself. This holds for
  every sequence, so in particular for every sequence of distinct functions.
\<close>

theorem benchmarks_lists_functions_in_application_order:
  "benchmarks (run d (map (Pair Benchmark) fs) r) = benchmarks r @ fs
   \<and> benchmarks (run d (map (Pair Benchmark) fs) initial_registry) = fs
   \<and> bench_marked_functions (run d (map (Pair Benchmark) fs) initial_registry) = fs"
proof -
  have sel: "map snd (filter (\<lambda>x. fst x = Benchmark) (map (Pair Benchmark) fs)) = fs"
    by (induction fs) simp_all
  have gen: "bench_marked_functions (run d (map (Pair Benchmark) fs) r') =
               bench_marked_functions r' @ fs" for r'
    by (simp only: run_bench_marked_functions sel)
  show ?thesis
    by (simp add: benchmarks_def gen initial_registry_def)
qed

text \<open>
  Claim C5. Applying \<^verbatim>\<open>benchmark\<close> twice to the same function object \<open>f\<close> (stacked
  on one definition, or in two separate applications) puts \<open>f\<close> into the benchmark
  sequence twice: both entries are appended, the number of occurrences of \<open>f\<close> grows
  by two, and from the registry with nothing registered the sequence is \<open>[f, f]\<close>.
  Registration is not idempotent and removes no duplicates.
\<close>

theorem benchmark_twice_registers_twice:
  "benchmarks (snd (decorate d [Benchmark, Benchmark] f r)) = benchmarks r @ [f, f]
   \<and> benchmarks (run d [(Benchmark, f), (Benchmark, f)] r) = benchmarks r @ [f, f]
   \<and> count_list (benchmarks (snd (decorate d [Benchmark, Benchmark] f r))) f =
       count_list (benchmarks r) f + 2
   \<and> benchmarks (snd (decorate d [Benchmark, Benchmark] f initial_registry)) = [f, f]
   \<and> benchmarks (snd (benchmark f r)) \<noteq> benchmarks (snd (decorate d [Benchmark, Benchmark] f r))"
  by (simp add: benchmarks_def benchmark_def initial_registry_def)

text \<open>
  Claim C4. For every object \<open>f\<close> and every registry, \<^verbatim>\<open>benchmark\<close> returns \<open>f\<close>
  itself: the returned object is the one that was passed in, so a marker applied
  afterwards to the result is applied to the same identity.
\<close>

theorem benchmark_returns_same_function:
  "fst (benchmark f r) = f"
  by (simp add: benchmark_def)

text \<open>
  Claim C10. Applying \<^verbatim>\<open>benchmark\<close> to \<open>f\<close> appends exactly one entry, \<open>f\<close>, at the end
  of the benchmark sequence (its length grows by one) and leaves the parameter mapping
  and the setup mapping as they were, for every identity.
\<close>

theorem benchmark_appends_one_and_frames:
  "benchmarks (snd (benchmark f r)) = benchmarks r @ [f]
   \<and> length (benchmarks (snd (benchmark f r))) = Suc (length (benchmarks r))
   \<and> parameters_for (snd (benchmark f r)) g = parameters_for r g
   \<and> setup_for (snd (benchmark f r)) g = setup_for r g"
  by (simp add: benchmarks_def parameters_for_def setup_for_def benchmark_fields)

subsection \<open>The param marker\<close>

text \<open>
  Claim C2. After \<^verbatim>\<open>param(args)\<close> has been applied to \<open>f\<close>, the parameter lookup for
  \<open>f\<close> yields exactly \<open>args\<close>. Applying \<^verbatim>\<open>param(a1)\<close> and then \<^verbatim>\<open>param(a2)\<close> to \<open>f\<close>
  leaves the lookup for \<open>f\<close> equal to \<open>a2\<close>: the later write replaces the earlier
  association. This holds whatever the absent method returns. When the two markers are
  stacked on one definition, the second one receives what the first one returned, so
  the same holds there if the first one returned \<open>f\<close>.
\<close>

theorem param_lookup_last_write_wins:
  "parameters_for (snd (param d args f r)) f = Some args
   \<and> (param_result d f a1 = f \<longrightarrow>
        parameters_for (snd (decorate d [Param a1, Param a2] f r)) f = Some a2)
   \<and> parameters_for (run d [(Param a1, f), (Param a2, f)] r) f = Some a2
   \<and> parameters_for (snd (param d a2 f (snd (param d a1 f r)))) f = Some a2"
  by (simp add: parameters_for_def param_def dumb_wrapper_def
        save_param_marked_function_def)

theorem param_lookup_last_write_wins_witness:
  "param_result returns_same (PyFunction 1) [PyInt 1] = PyFunction 1
   \<and> parameters_for (snd (param returns_same [PyInt 1] (PyFunction 1) initial_registry))
       (PyFunction 1) = Some [PyInt 1]
   \<and> parameters_for
       (snd (decorate returns_same [Param [PyInt 1], Param [PyInt 2, PyInt 3]] (PyFunction 1)
          initial_registry))
       (PyFunction 1) = Some [PyInt 2, PyInt 3]
   \<and> parameters_for
       (run returns_same
          [(Param [PyInt 1], PyFunction 1), (Param [PyInt 2, PyInt 3], PyFunction 1)]
          initial_registry)
       (PyFunction 1) = Some [PyInt 2, PyInt 3]"
  using param_lookup_last_write_wins
    [of returns_same "[PyInt 1]" "PyFunction 1" initial_registry "[PyInt 1]"
        "[PyInt 2, PyInt 3]"]
  by (simp add: returns_same_def)

text \<open>
  Claim C7. Applying \<^verbatim>\<open>param(args)\<close> to \<open>f\<close> changes the parameter mapping only, and
  there only the entry of \<open>f\<close>: the benchmark sequence and the setup mapping are
  the same before and after. Hence a function that is given parameters but is never
  passed to \<^verbatim>\<open>benchmark\<close> does not occur in the benchmark sequence, whatever other
  markers are applied, although its parameters are recorded.
\<close>

theorem param_changes_only_parameter_mapping:
  "benchmarks (snd (param d args f r)) = benchmarks r
   \<and> case_setup_functions (snd (param d args f r)) = case_setup_functions r
   \<and> setup_for (snd (param d args f r)) g = setup_for r g
   \<and> (g \<noteq> f \<longrightarrow> parameters_for (snd (param d args f r)) g = parameters_for r g)
   \<and> f \<notin> set (benchmarks (snd (param d args f initial_registry)))
   \<and> parameters_for (snd (param d args f initial_registry)) f = Some args
   \<and> ((Benchmark, f) \<notin> set ops \<longrightarrow> f \<notin> set (benchmarks (run d ops initial_registry)))"
proof -
  have orphan: "f \<notin> set (benchmarks (run d ops initial_registry))"
    if "(Benchmark, f) \<notin> set ops"
  proof
    assume "f \<in> set (benchmarks (run d ops initial_registry))"
    then have "f \<in> snd ` {x \<in> set ops. fst x = Benchmark}"
      by (simp add: benchmarks_def run_bench_marked_functions initial_registry_def)
    then obtain x where mem: "x \<in> set ops" and m: "fst x = Benchmark" and g: "snd x = f"
      by auto
    from m g have "x = (Benchmark, f)"
      by (simp add: prod_eq_iff)
    with mem have "(Benchmark, f) \<in> set ops"
      by simp
    with that show False by simp
  qed
  show ?thesis
    using orphan
    by (simp add: benchmarks_def setup_for_def parameters_for_def param_fields
          initial_registry_def)
qed

theorem param_changes_only_parameter_mapping_witness:
  "PyFunction 2 \<noteq> PyFunction 1
   \<and> (Benchmark, PyFunction 1) \<notin>
       set [(Benchmark, PyFunction 2), (Param [PyInt 7], PyFunction 1), (CaseSetup, PyFunction 1)]
   \<and> parameters_for (snd (param returns_same [PyInt 7] (PyFunction 1) initial_registry))
       (PyFunction 2) = parameters_for initial_registry (PyFunction 2)
   \<and> parameters_for (snd (param returns_same [PyInt 7] (PyFunction 1) initial_registry))
       (PyFunction 1) = Some [PyInt 7]
   \<and> PyFunction 1 \<notin> set (benchmarks (run returns_same
       [(Benchmark, PyFunction 2), (Param [PyInt 7], PyFunction 1), (CaseSetup, PyFunction 1)]
       initial_registry))"
  using param_changes_only_parameter_mapping
    [of returns_same "[PyInt 7]" "PyFunction 1" initial_registry "PyFunction 2"
        "[(Benchmark, PyFunction 2), (Param [PyInt 7], PyFunction 1), (CaseSetup, PyFunction 1)]"]
  by simp

text \<open>
  Claim C9. \<^verbatim>\<open>param()\<close> with no arguments binds the empty tuple to \<open>f\<close>: afterwards
  the parameter lookup for \<open>f\<close> is present and equal to the empty tuple. This differs
  from the lookup for a function that was never passed to \<^verbatim>\<open>param\<close>, which is absent
  (here: in the registry with nothing registered, and after \<^verbatim>\<open>benchmark\<close> alone).
\<close>

theorem param_without_arguments_binds_empty_tuple:
  "parameters_for (snd (param d [] f r)) f = Some []
   \<and> parameters_for (snd (param d [] f r)) f \<noteq> None
   \<and> parameters_for initial_registry f = None
   \<and> parameters_for (snd (benchmark f initial_registry)) f = None
   \<and> parameters_for (snd (param d [] f initial_registry)) f \<noteq>
       parameters_for (snd (benchmark f initial_registry)) f"
  by (simp add: parameters_for_def param_fields benchmark_fields initial_registry_def)

subsection \<open>The case\_setup marker\<close>

text \<open>
  Claim C8. After \<^verbatim>\<open>case_setup\<close> has been applied to \<open>f\<close>, the setup lookup for \<open>f\<close>
  yields \<open>f\<close> itself. For any sequence of marker applications that starts from the
  registry with nothing registered: if \<open>f\<close> was never passed to \<^verbatim>\<open>case_setup\<close>, the
  setup lookup for \<open>f\<close> is absent, and if \<open>f\<close> was never passed to \<^verbatim>\<open>param\<close> (with
  whatever arguments), the parameter lookup for \<open>f\<close> is absent.
\<close>

theorem setup_lookup_bound_exactly_when_marked:
  "setup_for (snd (case_setup d f r)) f = Some f
   \<and> ((CaseSetup, f) \<notin> set ops \<longrightarrow> setup_for (run d ops initial_registry) f = None)
   \<and> ((\<forall>args. (Param args, f) \<notin> set ops) \<longrightarrow>
        parameters_for (run d ops initial_registry) f = None)"
proof -
  have bound: "setup_for (snd (case_setup d f r)) f = Some f"
    by (simp add: setup_for_def case_setup_fields)
  have no_setup: "setup_for (run d ops initial_registry) f = None"
    if "(CaseSetup, f) \<notin> set ops"
    using run_case_setup_functions_untouched [OF that, of d initial_registry]
    by (simp add: setup_for_def initial_registry_def)
  have no_param: "parameters_for (run d ops initial_registry) f = None"
    if "\<forall>args. (Param args, f) \<notin> set ops"
    using run_param_marked_functions_untouched [OF that, of d initial_registry]
    by (simp add: parameters_for_def initial_registry_def)
  from bound no_setup no_param show ?thesis
    by blast
qed

theorem setup_lookup_bound_exactly_when_marked_witness:
  "(CaseSetup, PyFunction 1) \<notin>
       set [(Benchmark, PyFunction 1), (CaseSetup, PyFunction 2), (Param [PyInt 3], PyFunction 3)]
   \<and> (\<forall>args. (Param args, PyFunction 1) \<notin>
       set [(Benchmark, PyFunction 1), (CaseSetup, PyFunction 2), (Param [PyInt 3], PyFunction 3)])
   \<and> setup_for (snd (case_setup returns_same (PyFunction 1) initial_registry)) (PyFunction 1) =
       Some (PyFunction 1)
   \<and> setup_for (run returns_same
       [(Benchmark, PyFunction 1), (CaseSetup, PyFunction 2), (Param [PyInt 3], PyFunction 3)]
       initial_registry) (PyFunction 1) = None
   \<and> parameters_for (run returns_same
       [(Benchmark, PyFunction 1), (CaseSetup, PyFunction 2), (Param [PyInt 3], PyFunction 3)]
       initial_registry) (PyFunction 1) = None"
  using setup_lookup_bound_exactly_when_marked
    [of returns_same "PyFunction 1" initial_registry
        "[(Benchmark, PyFunction 1), (CaseSetup, PyFunction 2), (Param [PyInt 3], PyFunction 3)]"]
  by simp

subsection \<open>Stacking the three markers\<close>




end
